theory Spec2Isabelle
  imports Complex_Main "HOL-Library.AList" "HOL-Library.Word"
begin

unbundle bit_operations_syntax

section \<open>JavaScript values\<close>

text \<open>
  The schema engine of \<^verbatim>\<open>src/hooks/web/useCrudSchemas.ts\<close> works on untyped
  JavaScript objects: it spreads them, overrides keys and deletes keys. An object is
  therefore an association list from keys to values, in insertion order; writing an
  existing key keeps its position and writing a new key appends it, as in JavaScript.
  Numbers are integers (the engine only tests them for truthiness), and a function
  value is an opaque identifier. A record is a plain object: the model keeps no named
  keys on an array or a function, and answers TypeError where the engine would write
  one there.

  Objects are values here: two records never share one mutable sub-object. An input in
  which two nodes hold the very same \<^verbatim>\<open>componentProps\<close> object, or an option list
  that holds the very same record twice, is outside this model.
\<close>

datatype jsval =
    JUndefined
  | JNull
  | JBool bool
  | JNum int
  | JStr string
  | JFun nat
  | JArr "jsval list"
  | JObj "(string \<times> jsval) list"

type_synonym obj = "(string \<times> jsval) list"

datatype error = TypeError | ApiRejected

text \<open>\<^verbatim>\<open>if (v)\<close>, \<^verbatim>\<open>!!v\<close>: JavaScript truthiness.\<close>

fun truthy :: "jsval \<Rightarrow> bool" where
  "truthy JUndefined = False"
| "truthy JNull = False"
| "truthy (JBool b) = b"
| "truthy (JNum n) = (n \<noteq> 0)"
| "truthy (JStr s) = (s \<noteq> [])"
| "truthy (JFun f) = True"
| "truthy (JArr vs) = True"
| "truthy (JObj kvs) = True"

text \<open>\<^verbatim>\<open>a || b\<close> and \<^verbatim>\<open>a && b\<close> return one of their operands.\<close>

definition js_or :: "jsval \<Rightarrow> jsval \<Rightarrow> jsval" where
  "js_or a b = (if truthy a then a else b)"

definition js_and :: "jsval \<Rightarrow> jsval \<Rightarrow> jsval" where
  "js_and a b = (if truthy a then b else a)"

text \<open>
  \<^verbatim>\<open>v.k\<close> for the keys the engine reads (\<^verbatim>\<open>show\<close>, \<^verbatim>\<open>component\<close>, \<^verbatim>\<open>field\<close>, ...):
  the value stored under the key of an object, \<^verbatim>\<open>undefined\<close> when the key is absent
  or the value is a primitive. The engine reads a key of \<^verbatim>\<open>undefined\<close> or \<^verbatim>\<open>null\<close>
  only behind \<^verbatim>\<open>?.\<close> or a truthiness test, except where the model says TypeError.
\<close>

fun js_get :: "jsval \<Rightarrow> string \<Rightarrow> jsval" where
  "js_get (JObj kvs) k = (case map_of kvs k of Some v \<Rightarrow> v | None \<Rightarrow> JUndefined)"
| "js_get v k = JUndefined"

text \<open>Number.prototype.toString() with no radix: the decimal numeral.\<close>

fun dec :: "nat \<Rightarrow> string" where
  "dec n = (if n < 10 then [''0123456789'' ! n]
            else dec (n div 10) @ [''0123456789'' ! (n mod 10)])"

definition toString :: "int \<Rightarrow> string" where
  "toString v = (if v < 0 then CHR ''-'' # dec (nat (- v)) else dec (nat v))"

text \<open>
  The own enumerable properties that \<^verbatim>\<open>{...v}\<close> copies: those of an object, the
  indexed elements of an array or a string, nothing for any other value.
\<close>

fun own_entries :: "jsval \<Rightarrow> obj" where
  "own_entries (JObj kvs) = kvs"
| "own_entries (JArr vs) = zip (map dec [0 ..< length vs]) vs"
| "own_entries (JStr s) = zip (map dec [0 ..< length s]) (map (\<lambda>c. JStr [c]) s)"
| "own_entries v = []"

text \<open>
  \<^verbatim>\<open>{ ...acc, ...v }\<close>: the entries of \<open>v\<close> written into \<open>acc\<close> one by one. An object
  has each key once; an association list that repeats a key stands for the object of
  its first entries, as \<open>js_get\<close> reads it.
\<close>

definition spread :: "jsval \<Rightarrow> obj \<Rightarrow> obj" where
  "spread v acc = fold (\<lambda>(k, x). AList.update k x) (AList.clearjunk (own_entries v)) acc"

section \<open>String utilities: \<^verbatim>\<open>src/utils/index.ts\<close>\<close>

text \<open>
  \<^verbatim>\<open>(Math.random() * 16) | 0\<close>: the product is truncated towards zero and wrapped to
  a signed 32-bit integer. A draw of \<^verbatim>\<open>Math.random\<close> is a double in \<open>[0, 1)\<close>, that is
  a rational number, and multiplying it by 16 is exact.
\<close>

definition to_int32 :: "rat \<Rightarrow> int" where
  "to_int32 q = sint (word_of_int (if q < 0 then - \<lfloor>- q\<rfloor> else \<lfloor>q\<rfloor>) :: 32 word)"

text \<open>The callback of \<^verbatim>\<open>replace\<close> in \<^verbatim>\<open>toAnyString\<close>, given the draw it makes.\<close>

definition replacer :: "rat \<Rightarrow> char \<Rightarrow> string" where
  "replacer draw c =
     (let r = to_int32 (draw * 16);
          v = (if c = CHR ''x'' then r else (r AND 3) OR 8)
      in toString v)"

text \<open>
  \<^verbatim>\<open>str.replace(/[xy]/g, callback)\<close>: every \<^verbatim>\<open>x\<close> and \<^verbatim>\<open>y\<close>, left to right, is
  replaced by what the callback returns; the \<open>i\<close>-th call makes the \<open>i\<close>-th draw.
\<close>

fun replace_xy :: "(nat \<Rightarrow> rat) \<Rightarrow> nat \<Rightarrow> string \<Rightarrow> string" where
  "replace_xy random i [] = []"
| "replace_xy random i (c # cs) =
     (if c = CHR ''x'' \<or> c = CHR ''y''
      then replacer (random i) c @ replace_xy random (Suc i) cs
      else c # replace_xy random i cs)"

definition toAnyString :: "(nat \<Rightarrow> rat) \<Rightarrow> string" where
  "toAnyString random = replace_xy random 0 ''xxxxx-xxxxx-4xxxx-yxxxx-xxxxx''"

text \<open>
  What the specification says of the result: the template with one hexadecimal digit
  at every \<^verbatim>\<open>x\<close> and one of \<^verbatim>\<open>8 9 a b\<close> at the \<^verbatim>\<open>y\<close>.
\<close>

fun matches_template :: "string \<Rightarrow> string \<Rightarrow> bool" where
  "matches_template [] [] = True"
| "matches_template (p # ps) (c # cs) =
     ((if p = CHR ''x'' then c \<in> set ''0123456789abcdef''
       else if p = CHR ''y'' then c \<in> set ''89ab''
       else c = p) \<and> matches_template ps cs)"
| "matches_template ps cs = False"



section \<open>The option-list translator\<close>

text \<open>
  \<^verbatim>\<open>filterOptions(options, labelField)\<close>, with the translator \<^verbatim>\<open>t\<close> of the i18n hook
  as a parameter. \<^verbatim>\<open>options.map\<close> raises a TypeError when \<open>options\<close> is not an array;
  reading \<^verbatim>\<open>v.label\<close> raises one when the element \<open>v\<close> is \<^verbatim>\<open>undefined\<close> or \<^verbatim>\<open>null\<close>, and
  the assignment \<^verbatim>\<open>v['label'] = ...\<close> raises one when \<open>v\<close> is a primitive (the modules
  are strict code). The source writes into each record in place; the model returns
  the records as they are afterwards.
\<close>

definition translate_record :: "(jsval \<Rightarrow> jsval) \<Rightarrow> jsval \<Rightarrow> jsval \<Rightarrow> error + jsval" where
  "translate_record t labelField v =
     (case v of
        JObj kvs \<Rightarrow>
          (if truthy labelField
           then Inr (JObj (AList.update ''labelField'' (t (js_get v ''labelField'')) kvs))
           else Inr (JObj (AList.update ''label'' (t (js_get v ''label'')) kvs)))
      | _ \<Rightarrow> Inl TypeError)"

fun map_err :: "('a \<Rightarrow> error + 'b) \<Rightarrow> 'a list \<Rightarrow> error + 'b list" where
  "map_err f [] = Inr []"
| "map_err f (x # xs) =
     (case f x of
        Inl e \<Rightarrow> Inl e
      | Inr y \<Rightarrow> (case map_err f xs of Inl e \<Rightarrow> Inl e | Inr ys \<Rightarrow> Inr (y # ys)))"

definition filterOptions :: "(jsval \<Rightarrow> jsval) \<Rightarrow> jsval \<Rightarrow> jsval \<Rightarrow> error + jsval list" where
  "filterOptions t options labelField =
     (case options of
        JArr vs \<Rightarrow> map_err (translate_record t labelField) vs
      | _ \<Rightarrow> Inl TypeError)"

text \<open>The translator of the specification's example: \<^verbatim>\<open>s.toUpperCase()\<close> on a string.\<close>

definition toUpperCase :: "string \<Rightarrow> string" where
  "toUpperCase s =
     map (\<lambda>c. case map_of (zip ''abcdefghijklmnopqrstuvwxyz'' ''ABCDEFGHIJKLMNOPQRSTUVWXYZ'') c of
                Some u \<Rightarrow> u
              | None \<Rightarrow> c) s"

fun upper_t :: "jsval \<Rightarrow> jsval" where
  "upper_t (JStr s) = JStr (toUpperCase s)"
| "upper_t v = v"

section \<open>The unified schema tree\<close>

text \<open>
  \<^verbatim>\<open>CrudSchema\<close>: a node is its own keys other than \<^verbatim>\<open>children\<close> (\<^verbatim>\<open>field\<close>,
  \<^verbatim>\<open>label\<close>, the four view blocks \<^verbatim>\<open>search\<close>, \<^verbatim>\<open>table\<close>, \<^verbatim>\<open>form\<close>, \<^verbatim>\<open>detail\<close>
  and whatever else the column carries) and the optional list \<^verbatim>\<open>children\<close>, declared
  \<^verbatim>\<open>children?: CrudSchema[]\<close>. \<^verbatim>\<open>TableColumn\<close> is the node of the table projection,
  of the same shape.
\<close>

datatype CrudSchema = CrudSchema (props: obj) (children: "CrudSchema list option")

datatype TableColumn = TableColumn (cprops: obj) (cchildren: "TableColumn list option")

definition node_get :: "CrudSchema \<Rightarrow> string \<Rightarrow> jsval" where
  "node_get schemaItem k = js_get (JObj (props schemaItem)) k"

record AllSchemas =
  searchSchema :: "obj list"
  tableColumns :: "TableColumn list"
  formSchema :: "obj list"
  detailSchema :: "obj list"

section \<open>Tree utilities\<close>

text \<open>
  Modelled from the spec: \<^verbatim>\<open>eachTree\<close> of \<^verbatim>\<open>@/utils/tree\<close>, which is not among the
  sources. Section 4.1, Visit: a depth-first, pre-order traversal that calls the
  visitor on every node, intermediate and leaf, for its side effects only; the
  visitor's effect on the accumulator it builds is a state transformer.
\<close>

fun eachTree :: "CrudSchema list \<Rightarrow> (CrudSchema \<Rightarrow> 's \<Rightarrow> 's) \<Rightarrow> 's \<Rightarrow> 's" where
  "eachTree [] callBack s = s"
| "eachTree (CrudSchema p None # rest) callBack s =
     eachTree rest callBack (callBack (CrudSchema p None) s)"
| "eachTree (CrudSchema p (Some cs) # rest) callBack s =
     eachTree rest callBack (eachTree cs callBack (callBack (CrudSchema p (Some cs)) s))"

text \<open>
  Modelled from the spec: \<^verbatim>\<open>treeMap\<close> of \<^verbatim>\<open>@/utils/tree\<close>, which is not among the
  sources. Section 4.1, Map: a new tree of the same shape in which the transform's
  result replaces each node; the mapping recurses into \<^verbatim>\<open>children\<close> and reattaches
  the transformed children to whatever the transform produced, an absent result
  included (the node is then an object with nothing but its children).
\<close>

fun treeMap :: "CrudSchema list \<Rightarrow> (CrudSchema \<Rightarrow> obj option) \<Rightarrow> TableColumn list" where
  "treeMap [] conversion = []"
| "treeMap (CrudSchema p None # rest) conversion =
     TableColumn (case conversion (CrudSchema p None) of None \<Rightarrow> [] | Some r \<Rightarrow> r) None
       # treeMap rest conversion"
| "treeMap (CrudSchema p (Some cs) # rest) conversion =
     TableColumn (case conversion (CrudSchema p (Some cs)) of None \<Rightarrow> [] | Some r \<Rightarrow> r)
         (Some (treeMap cs conversion))
       # treeMap rest conversion"

text \<open>
  Modelled from the spec: \<^verbatim>\<open>filter\<close> of \<^verbatim>\<open>@/utils/tree\<close>, which is not among the
  sources. Section 4.1, Filter: a post-order structural filter; it recurses into
  \<^verbatim>\<open>children\<close> first, keeps a child only if the predicate holds of it, then evaluates
  the current node; a node whose resulting list of children is empty loses its
  \<^verbatim>\<open>children\<close> key.
\<close>

fun filter_tree :: "TableColumn list \<Rightarrow> (TableColumn \<Rightarrow> bool) \<Rightarrow> TableColumn list" where
  "filter_tree [] func = []"
| "filter_tree (TableColumn p None # rest) func =
     (if func (TableColumn p None) then [TableColumn p None] else [])
       @ filter_tree rest func"
| "filter_tree (TableColumn p (Some cs) # rest) func =
     (let kept = filter_tree cs func;
          node = TableColumn p (if kept = [] then None else Some kept)
      in (if func node then [node] else []) @ filter_tree rest func)"

section \<open>The projections: \<^verbatim>\<open>src/hooks/web/useCrudSchemas.ts\<close>\<close>

subsection \<open>Search\<close>

text \<open>
  What \<^verbatim>\<open>filterSearchSchema\<close> builds while it walks the tree: its local list
  \<^verbatim>\<open>searchSchema\<close>, the queue \<^verbatim>\<open>searchRequestTask\<close> (a task is the record its closure
  captured) and the global dictionary \<^verbatim>\<open>dictStore.getDictObj\<close>, whose records
  \<^verbatim>\<open>filterOptions\<close> translates in place.
\<close>

record search_acc =
  acc_searchSchema :: "obj list"
  acc_searchRequestTask :: "obj list"
  acc_getDictObj :: obj

text \<open>Lines 92 to 99: the object literal, its keys written in the order of the source.\<close>

definition searchSchemaItem :: "CrudSchema \<Rightarrow> obj" where
  "searchSchemaItem schemaItem =
     (let search = node_get schemaItem ''search'' in
      AList.update ''label'' (node_get schemaItem ''label'')
        (AList.update ''field'' (node_get schemaItem ''field'')
          (spread search
            [(''component'', js_or (js_get search ''component'') (JStr ''input'')),
             (''componentProps'', JObj [])])))"

text \<open>
  \<^verbatim>\<open>item.componentProps.options = v\<close>: a TypeError unless \<^verbatim>\<open>componentProps\<close> is an
  object (the modules are strict code, so writing a key of a primitive raises too).
\<close>

definition set_options :: "obj \<Rightarrow> jsval \<Rightarrow> error + obj" where
  "set_options item v =
     (case js_get (JObj item) ''componentProps'' of
        JObj cp \<Rightarrow>
          Inr (AList.update ''componentProps'' (JObj (AList.update ''options'' v cp)) item)
      | _ \<Rightarrow> Inl TypeError)"

text \<open>Lines 123 and 124.\<close>

definition delete_internal :: "obj \<Rightarrow> obj" where
  "delete_internal item = AList.delete ''dictName'' (AList.delete ''show'' item)"

text \<open>
  \<^verbatim>\<open>dictStore.getDictObj[dictName]\<close>; \<^verbatim>\<open>dictName\<close> is declared a string.
\<close>

definition dict_lookup :: "obj \<Rightarrow> jsval \<Rightarrow> jsval" where
  "dict_lookup dict dictName =
     (case dictName of JStr name \<Rightarrow> js_get (JObj dict) name | _ \<Rightarrow> JUndefined)"

definition dict_store :: "obj \<Rightarrow> jsval \<Rightarrow> jsval \<Rightarrow> obj" where
  "dict_store dict dictName v =
     (case dictName of JStr name \<Rightarrow> AList.update name v dict | _ \<Rightarrow> dict)"

text \<open>
  The callback of \<^verbatim>\<open>eachTree\<close>, lines 89 to 128, on one node. It raises what
  \<^verbatim>\<open>filterOptions\<close> or the assignment of line 104 raises.
\<close>

definition search_callback ::
  "(jsval \<Rightarrow> jsval) \<Rightarrow> CrudSchema \<Rightarrow> search_acc \<Rightarrow> error + search_acc" where
  "search_callback t schemaItem acc =
     (if truthy (js_get (node_get schemaItem ''search'') ''show'') then
        (let item = searchSchemaItem schemaItem;
             dictName = js_get (JObj item) ''dictName''
         in if truthy dictName then
              (case filterOptions t (dict_lookup (acc_getDictObj acc) dictName) JUndefined of
                 Inl e \<Rightarrow> Inl e
               | Inr opts \<Rightarrow>
                   (case set_options item (JArr opts) of
                      Inl e \<Rightarrow> Inl e
                    | Inr item' \<Rightarrow>
                        Inr (acc\<lparr>acc_searchSchema := acc_searchSchema acc @ [delete_internal item'],
                                 acc_getDictObj :=
                                   dict_store (acc_getDictObj acc) dictName (JArr opts)\<rparr>)))
            else if truthy (js_get (JObj item) ''api'') then
              Inr (acc\<lparr>acc_searchSchema := acc_searchSchema acc @ [delete_internal item],
                       acc_searchRequestTask :=
                         acc_searchRequestTask acc @ [delete_internal item]\<rparr>)
            else
              Inr (acc\<lparr>acc_searchSchema := acc_searchSchema acc @ [delete_internal item]\<rparr>))
      else Inr acc)"

text \<open>
  An exception raised in the callback leaves the traversal: once the state is an
  error, no later node is visited.
\<close>

definition search_visit ::
  "(jsval \<Rightarrow> jsval) \<Rightarrow> CrudSchema \<Rightarrow> error + search_acc \<Rightarrow> error + search_acc" where
  "search_visit t schemaItem s =
     (case s of Inl e \<Rightarrow> Inl e | Inr acc \<Rightarrow> search_callback t schemaItem acc)"

text \<open>
  \<^verbatim>\<open>filterSearchSchema\<close> returns the list; the tasks it has started and the dictionary
  as it leaves it are its effects. Starting a task calls the node's \<^verbatim>\<open>api\<close> and
  suspends at \<^verbatim>\<open>await\<close>; what the task does when the call settles is \<open>run_task\<close>
  below.
\<close>

definition filterSearchSchema ::
  "(jsval \<Rightarrow> jsval) \<Rightarrow> obj \<Rightarrow> CrudSchema list \<Rightarrow> error + search_acc" where
  "filterSearchSchema t dict crudSchema =
     eachTree crudSchema (search_visit t)
       (Inr \<lparr>acc_searchSchema = [], acc_searchRequestTask = [], acc_getDictObj = dict\<rparr>)"

subsection \<open>Table\<close>

text \<open>
  Lines 140 to 147. \<^verbatim>\<open>{...schema.table, ...schema}\<close>: the node's keys override the
  table block's. The \<^verbatim>\<open>children\<close> that \<^verbatim>\<open>...schema\<close> copies is the key \<^verbatim>\<open>treeMap\<close>
  replaces by the converted children.
\<close>

definition conversion :: "CrudSchema \<Rightarrow> obj option" where
  "conversion schema =
     (if js_get (node_get schema ''table'') ''show'' \<noteq> JBool False
      then Some (spread (JObj (props schema)) (spread (node_get schema ''table'') []))
      else None)"

text \<open>
  Lines 151 to 156. The callback deletes a \<^verbatim>\<open>children\<close> key whose value is
  \<^verbatim>\<open>undefined\<close>, which is no children at all here, and answers \<^verbatim>\<open>!!data.field\<close>.
\<close>

definition has_field :: "TableColumn \<Rightarrow> bool" where
  "has_field data = truthy (js_get (JObj (cprops data)) ''field'')"

definition filterTableSchema :: "CrudSchema list \<Rightarrow> TableColumn list" where
  "filterTableSchema curdSchema = filter_tree (treeMap curdSchema conversion) has_field"

subsection \<open>Form and detail\<close>

definition formSchemaItem :: "CrudSchema \<Rightarrow> obj" where
  "formSchemaItem schemaItem =
     (let form = node_get schemaItem ''form'' in
      AList.delete ''show''
        (AList.update ''label'' (node_get schemaItem ''label'')
          (AList.update ''field'' (node_get schemaItem ''field'')
            (spread form
              [(''component'',
                js_or (js_and form (js_get form ''component'')) (JStr ''Input''))]))))"

definition form_callback :: "CrudSchema \<Rightarrow> obj list \<Rightarrow> obj list" where
  "form_callback schemaItem out =
     (if js_get (node_get schemaItem ''form'') ''show'' \<noteq> JBool False
      then out @ [formSchemaItem schemaItem]
      else out)"

definition filterFormSchema :: "CrudSchema list \<Rightarrow> obj list" where
  "filterFormSchema curdSchemas = eachTree curdSchemas form_callback []"

definition descriptionsSchemaItem :: "CrudSchema \<Rightarrow> obj" where
  "descriptionsSchemaItem schemaItem =
     AList.delete ''show''
       (AList.update ''label'' (node_get schemaItem ''label'')
         (AList.update ''field'' (node_get schemaItem ''field'')
           (spread (node_get schemaItem ''detail'') [])))"

definition descriptions_callback :: "CrudSchema \<Rightarrow> obj list \<Rightarrow> obj list" where
  "descriptions_callback schemaItem out =
     (if js_get (node_get schemaItem ''detail'') ''show'' \<noteq> JBool False
      then out @ [descriptionsSchemaItem schemaItem]
      else out)"

definition filterDescriptionsSchema :: "CrudSchema list \<Rightarrow> obj list" where
  "filterDescriptionsSchema curdSchema = eachTree curdSchema descriptions_callback []"

subsection \<open>The engine\<close>

text \<open>
  \<^verbatim>\<open>useCrudSchemas\<close>, lines 52 to 80, with the i18n translator and the dictionary as
  parameters. It returns \<^verbatim>\<open>allSchemas\<close>; the tasks still pending and the dictionary
  afterwards are returned beside it. An exception of the search projection leaves the
  function.
\<close>

record crud_result =
  allSchemas :: AllSchemas
  pending :: "obj list"
  dictAfter :: obj

definition useCrudSchemas ::
  "(jsval \<Rightarrow> jsval) \<Rightarrow> obj \<Rightarrow> CrudSchema list \<Rightarrow> error + crud_result" where
  "useCrudSchemas t dict curdSchema =
     (case filterSearchSchema t dict curdSchema of
        Inl e \<Rightarrow> Inl e
      | Inr acc \<Rightarrow>
          Inr \<lparr>allSchemas =
                 \<lparr>searchSchema = acc_searchSchema acc,
                  tableColumns = filterTableSchema curdSchema,
                  formSchema = filterFormSchema curdSchema,
                  detailSchema = filterDescriptionsSchema curdSchema\<rparr>,
               pending = acc_searchRequestTask acc,
               dictAfter = acc_getDictObj acc\<rparr>)"

subsection \<open>The deferred task\<close>




section \<open>What the specification speaks of\<close>

text \<open>
  The specification's pre-order of a tree: a node, then its children in pre-order,
  then the nodes after it.
\<close>

fun preorder :: "CrudSchema list \<Rightarrow> CrudSchema list" where
  "preorder [] = []"
| "preorder (CrudSchema p None # rest) = CrudSchema p None # preorder rest"
| "preorder (CrudSchema p (Some cs) # rest) =
     CrudSchema p (Some cs) # preorder cs @ preorder rest"

text \<open>The same order on the tree of the table projection.\<close>

fun preorder_columns :: "TableColumn list \<Rightarrow> TableColumn list" where
  "preorder_columns [] = []"
| "preorder_columns (TableColumn p None # rest) = TableColumn p None # preorder_columns rest"
| "preorder_columns (TableColumn p (Some cs) # rest) =
     TableColumn p (Some cs) # preorder_columns cs @ preorder_columns rest"

text \<open>
  Visibility in each view: the search view shows a node whose \<^verbatim>\<open>search.show\<close> is
  truthy; the form and the detail views show a node unless \<^verbatim>\<open>show\<close> is the value
  \<^verbatim>\<open>false\<close>.
\<close>

definition search_shown :: "CrudSchema \<Rightarrow> bool" where
  "search_shown n = truthy (js_get (node_get n ''search'') ''show'')"

definition form_shown :: "CrudSchema \<Rightarrow> bool" where
  "form_shown n = (js_get (node_get n ''form'') ''show'' \<noteq> JBool False)"

definition detail_shown :: "CrudSchema \<Rightarrow> bool" where
  "detail_shown n = (js_get (node_get n ''detail'') ''show'' \<noteq> JBool False)"

text \<open>
  \<^verbatim>\<open>show?: boolean\<close>: the declared type of the search block's \<^verbatim>\<open>show\<close>, and a
  \<^verbatim>\<open>show\<close> that is present and \<^verbatim>\<open>true\<close>.
\<close>

definition show_declared :: "CrudSchema \<Rightarrow> bool" where
  "show_declared n =
     (case js_get (node_get n ''search'') ''show'' of
        JUndefined \<Rightarrow> True | JBool b \<Rightarrow> True | _ \<Rightarrow> False)"

definition search_show_true :: "CrudSchema \<Rightarrow> bool" where
  "search_show_true n = (js_get (node_get n ''search'') ''show'' = JBool True)"

text \<open>
  A record of \<^verbatim>\<open>searchSchema\<close> was built from a node: it is the node's literal of
  lines 92 to 99 without \<^verbatim>\<open>show\<close> and \<^verbatim>\<open>dictName\<close>, key for key and in the same
  order, but for \<^verbatim>\<open>componentProps\<close>, into which options may have been written.
\<close>

definition search_built_from :: "CrudSchema \<Rightarrow> obj \<Rightarrow> bool" where
  "search_built_from n r =
     (AList.delete ''componentProps'' r =
      AList.delete ''componentProps'' (delete_internal (searchSchemaItem n)))"

text \<open>A record carries a node's identity: its \<^verbatim>\<open>field\<close> and \<^verbatim>\<open>label\<close> are the node's.\<close>

definition same_identity :: "CrudSchema \<Rightarrow> obj \<Rightarrow> bool" where
  "same_identity n r =
     (js_get (JObj r) ''field'' = node_get n ''field'' \<and>
      js_get (JObj r) ''label'' = node_get n ''label'')"

text \<open>
  The table projection. A node is kept when its conversion gives an object with a
  truthy \<^verbatim>\<open>field\<close>; \<open>table_sources\<close> lists, in pre-order, the nodes that are kept
  and whose ancestors are all kept. An output column belongs to a node when it
  carries the node's merge \<^verbatim>\<open>{...schema.table, ...schema}\<close>. Its identity is the
  node's for each of \<^verbatim>\<open>field\<close> and \<^verbatim>\<open>label\<close> the node itself has.
\<close>

definition table_kept :: "CrudSchema \<Rightarrow> bool" where
  "table_kept n =
     (case conversion n of None \<Rightarrow> False | Some r \<Rightarrow> truthy (js_get (JObj r) ''field''))"

fun table_sources :: "CrudSchema list \<Rightarrow> CrudSchema list" where
  "table_sources [] = []"
| "table_sources (CrudSchema p None # rest) =
     (if table_kept (CrudSchema p None) then [CrudSchema p None] else []) @ table_sources rest"
| "table_sources (CrudSchema p (Some cs) # rest) =
     (if table_kept (CrudSchema p (Some cs))
      then CrudSchema p (Some cs) # table_sources cs else []) @ table_sources rest"

definition column_of :: "CrudSchema \<Rightarrow> TableColumn \<Rightarrow> bool" where
  "column_of n c = (conversion n = Some (cprops c))"

definition has_key :: "CrudSchema \<Rightarrow> string \<Rightarrow> bool" where
  "has_key n k = (map_of (props n) k \<noteq> None)"

definition table_identity :: "CrudSchema \<Rightarrow> TableColumn \<Rightarrow> bool" where
  "table_identity n c =
     ((has_key n ''field'' \<longrightarrow> js_get (JObj (cprops c)) ''field'' = node_get n ''field'') \<and>
      (has_key n ''label'' \<longrightarrow> js_get (JObj (cprops c)) ''label'' = node_get n ''label''))"

text \<open>
  The search block's \<^verbatim>\<open>componentProps\<close>, the default \<^verbatim>\<open>{}\<close> of line 95 when the
  block has none; and the two translations of a list of records: under the key
  \<^verbatim>\<open>label\<close>, and under the key \<^verbatim>\<open>filterOptions\<close> picks for a given \<^verbatim>\<open>labelField\<close>.
\<close>

definition component_props_of :: "obj \<Rightarrow> jsval" where
  "component_props_of sb =
     (case map_of sb ''componentProps'' of None \<Rightarrow> JObj [] | Some v \<Rightarrow> v)"

definition translate_labels :: "(jsval \<Rightarrow> jsval) \<Rightarrow> obj list \<Rightarrow> jsval list" where
  "translate_labels t os =
     map (\<lambda>kvs. JObj (AList.update ''label'' (t (js_get (JObj kvs) ''label'')) kvs)) os"


text \<open>A shown search node that names a dictionary: the only nodes whose visit can raise.\<close>

definition uses_dict :: "CrudSchema \<Rightarrow> bool" where
  "uses_dict n =
     (search_shown n \<and> truthy (js_get (JObj (searchSchemaItem n)) ''dictName''))"

subsection \<open>Example inputs\<close>

text \<open>
  A tree of three nodes: \<^verbatim>\<open>a\<close> (shown in search, with a label of its own in the
  search and the table blocks, hidden in the form) with the child \<^verbatim>\<open>b\<close> (hidden in
  search and detail), then \<^verbatim>\<open>c\<close> (shown in search with an \<^verbatim>\<open>api\<close>, hidden in the
  table); and what \<^verbatim>\<open>useCrudSchemas\<close> returns for it.
\<close>

definition ex_tree :: "CrudSchema list" where
  "ex_tree =
     [CrudSchema [(''field'', JStr ''a''), (''label'', JStr ''A''),
                  (''search'', JObj [(''show'', JBool True), (''label'', JStr ''S'')]),
                  (''table'', JObj [(''label'', JStr ''T'')]),
                  (''form'', JObj [(''show'', JBool False)])]
        (Some [CrudSchema [(''field'', JStr ''b''), (''label'', JStr ''B''),
                           (''search'', JObj [(''show'', JBool False)]),
                           (''detail'', JObj [(''show'', JBool False)])] None]),
      CrudSchema [(''field'', JStr ''c''), (''label'', JStr ''C''),
                  (''search'', JObj [(''show'', JBool True), (''api'', JFun 0)]),
                  (''table'', JObj [(''show'', JBool False)])] None]"

definition ex_result :: crud_result where
  "ex_result =
     \<lparr>allSchemas =
        \<lparr>searchSchema =
           [[(''component'', JStr ''input''), (''componentProps'', JObj []),
             (''label'', JStr ''A''), (''field'', JStr ''a'')],
            [(''component'', JStr ''input''), (''componentProps'', JObj []),
             (''api'', JFun 0), (''field'', JStr ''c''), (''label'', JStr ''C'')]],
         tableColumns =
           [TableColumn
              [(''label'', JStr ''A''), (''field'', JStr ''a''),
               (''search'', JObj [(''show'', JBool True), (''label'', JStr ''S'')]),
               (''table'', JObj [(''label'', JStr ''T'')]),
               (''form'', JObj [(''show'', JBool False)])]
              (Some [TableColumn
                       [(''field'', JStr ''b''), (''label'', JStr ''B''),
                        (''search'', JObj [(''show'', JBool False)]),
                        (''detail'', JObj [(''show'', JBool False)])]
                       None])],
         formSchema =
           [[(''component'', JStr ''Input''), (''field'', JStr ''b''), (''label'', JStr ''B'')],
            [(''component'', JStr ''Input''), (''field'', JStr ''c''), (''label'', JStr ''C'')]],
         detailSchema =
           [[(''field'', JStr ''a''), (''label'', JStr ''A'')],
            [(''field'', JStr ''c''), (''label'', JStr ''C'')]]\<rparr>,
      pending =
        [[(''component'', JStr ''input''), (''componentProps'', JObj []),
          (''api'', JFun 0), (''field'', JStr ''c''), (''label'', JStr ''C'')]],
      dictAfter = []\<rparr>"

text \<open>
  A node that names the dictionary \<^verbatim>\<open>d\<close> and asks for the label field \<^verbatim>\<open>alt\<close>, and
  a dictionary with that entry.
\<close>

definition ex_dict_node :: CrudSchema where
  "ex_dict_node =
     CrudSchema [(''field'', JStr ''a''), (''label'', JStr ''A''),
        (''search'', JObj [(''show'', JBool True), (''dictName'', JStr ''d''),
           (''componentProps'', JObj [(''optionsAlias'', JObj [(''labelField'', JStr ''alt'')])])])]
        None"

definition ex_dict :: obj where
  "ex_dict = [(''d'', JArr [JObj [(''alt'', JStr ''x''), (''label'', JStr ''y'')]])]"




section \<open>Facts about objects\<close>

lemma map_of_fold_update:
  "distinct (map fst es) \<Longrightarrow>
   map_of (fold (\<lambda>(k, x). AList.update k x) es acc) = map_of acc ++ map_of es"
proof (induction es arbitrary: acc)
  case Nil
  then show ?case by simp
next
  case (Cons e es)
  obtain k x where e: "e = (k, x)" by (cases e)
  from Cons.prems e have k: "k \<notin> fst ` set es" and d: "distinct (map fst es)" by auto
  from k have "k \<notin> dom (map_of es)" by (simp add: dom_map_of_conv_image_fst)
  then have A: "(map_of acc)(k \<mapsto> x) ++ map_of es = map_of acc ++ (map_of es)(k \<mapsto> x)"
    by (simp add: map_add_upd_left)
  have B: "map_of (fold (\<lambda>(k, x). AList.update k x) (e # es) acc) =
      (map_of acc)(k \<mapsto> x) ++ map_of es"
  proof -
    have "fold (\<lambda>(k, x). AList.update k x) (e # es) acc =
        fold (\<lambda>(k, x). AList.update k x) es (AList.update k x acc)"
      using e by simp
    then show ?thesis
      using Cons.IH [OF d, of "AList.update k x acc"] by (simp only: update_conv')
  qed
  have C: "map_of (e # es) = (map_of es)(k \<mapsto> x)" using e by simp
  show ?case unfolding B C A by (rule refl)
qed

lemma map_of_spread: "map_of (spread v acc) = map_of acc ++ map_of (own_entries v)"
  by (simp add: spread_def map_of_fold_update map_of_clearjunk)

lemma js_get_spread_object:
  "js_get (JObj (spread (JObj kvs) acc)) k =
     (case map_of kvs k of Some v \<Rightarrow> v | None \<Rightarrow> js_get (JObj acc) k)"
  by (simp add: map_of_spread map_add_def split: option.splits)

lemma js_get_delete: "k \<noteq> d \<Longrightarrow> js_get (JObj (AList.delete d r)) k = js_get (JObj r) k"
  by simp

lemma filterOptions_objects:
  "filterOptions t (JArr (map JObj os)) labelField =
     Inr (map (\<lambda>kvs. JObj (if truthy labelField
                            then AList.update ''labelField'' (t (js_get (JObj kvs) ''labelField'')) kvs
                            else AList.update ''label'' (t (js_get (JObj kvs) ''label'')) kvs)) os)"
  by (induction os) (simp_all add: filterOptions_def translate_record_def)

section \<open>Facts about the traversals\<close>

lemma eachTree_fold: "eachTree T f s = fold f (preorder T) s"
  by (induction T f s rule: eachTree.induct) simp_all

lemma fold_form_callback:
  "fold form_callback ns acc = acc @ map formSchemaItem (filter form_shown ns)"
  by (induction ns arbitrary: acc) (simp_all add: form_callback_def form_shown_def)

lemma filterFormSchema_preorder:
  "filterFormSchema T = map formSchemaItem (filter form_shown (preorder T))"
  by (simp add: filterFormSchema_def eachTree_fold fold_form_callback)

lemma fold_descriptions_callback:
  "fold descriptions_callback ns acc = acc @ map descriptionsSchemaItem (filter detail_shown ns)"
  by (induction ns arbitrary: acc) (simp_all add: descriptions_callback_def detail_shown_def)

lemma filterDescriptionsSchema_preorder:
  "filterDescriptionsSchema T = map descriptionsSchemaItem (filter detail_shown (preorder T))"
  by (simp add: filterDescriptionsSchema_def eachTree_fold fold_descriptions_callback)

lemma fold_search_visit_Inl: "fold (search_visit t) ns (Inl e) = Inl e"
  by (induction ns) (simp_all add: search_visit_def)

lemma set_options_built:
  "set_options item v = Inr item' \<Longrightarrow>
   AList.delete ''componentProps'' (delete_internal item') =
   AList.delete ''componentProps'' (delete_internal item)"
  by (auto simp: set_options_def delete_internal_def delete_update_same delete_twist
      split: jsval.splits)

lemma search_callback_step:
  assumes "search_callback t n acc = Inr acc'"
  shows "\<exists>rs. acc_searchSchema acc' = acc_searchSchema acc @ rs \<and>
              list_all2 search_built_from (filter search_shown [n]) rs"
proof (cases "search_shown n")
  case False
  with assms show ?thesis by (simp add: search_callback_def search_shown_def)
next
  case True
  with assms show ?thesis
    by (auto simp: search_callback_def search_shown_def search_built_from_def Let_def
        set_options_built split: if_splits sum.splits)
qed

lemma fold_search_visit:
  "fold (search_visit t) ns (Inr acc) = Inr acc' \<Longrightarrow>
   \<exists>rs. acc_searchSchema acc' = acc_searchSchema acc @ rs \<and>
        list_all2 search_built_from (filter search_shown ns) rs"
proof (induction ns arbitrary: acc)
  case Nil
  then show ?case by simp
next
  case (Cons n ns)
  show ?case
  proof (cases "search_callback t n acc")
    case (Inl e)
    then have "search_visit t n (Inr acc) = Inl e" by (simp add: search_visit_def)
    then have "fold (search_visit t) (n # ns) (Inr acc) = Inl e"
      by (simp add: fold_search_visit_Inl)
    with Cons.prems show ?thesis by simp
  next
    case (Inr acc1)
    then have "search_visit t n (Inr acc) = Inr acc1" by (simp add: search_visit_def)
    with Cons.prems have rest: "fold (search_visit t) ns (Inr acc1) = Inr acc'"
      by simp
    from search_callback_step [OF Inr] obtain rs1 where
      1: "acc_searchSchema acc1 = acc_searchSchema acc @ rs1"
         "list_all2 search_built_from (filter search_shown [n]) rs1" by blast
    from Cons.IH [OF rest] obtain rs2 where
      2: "acc_searchSchema acc' = acc_searchSchema acc1 @ rs2"
         "list_all2 search_built_from (filter search_shown ns) rs2" by blast
    have "filter search_shown (n # ns) = filter search_shown [n] @ filter search_shown ns"
      by simp
    with 1 2 have "acc_searchSchema acc' = acc_searchSchema acc @ (rs1 @ rs2) \<and>
       list_all2 search_built_from (filter search_shown (n # ns)) (rs1 @ rs2)"
      by (simp only: list_all2_appendI append_assoc simp_thms)
    then show ?thesis by blast
  qed
qed

lemma filterSearchSchema_preorder:
  assumes "filterSearchSchema t dict T = Inr acc"
  shows "list_all2 search_built_from (filter search_shown (preorder T)) (acc_searchSchema acc)"
proof -
  from assms have "fold (search_visit t) (preorder T)
      (Inr \<lparr>acc_searchSchema = [], acc_searchRequestTask = [], acc_getDictObj = dict\<rparr>) = Inr acc"
    by (simp add: filterSearchSchema_def eachTree_fold)
  from fold_search_visit [OF this] show ?thesis by simp
qed

lemma useCrudSchemas_search:
  assumes "useCrudSchemas t dict T = Inr r"
  shows "list_all2 search_built_from (filter search_shown (preorder T))
           (searchSchema (allSchemas r))"
proof -
  from assms obtain acc where acc: "filterSearchSchema t dict T = Inr acc"
    and r: "searchSchema (allSchemas r) = acc_searchSchema acc"
    by (auto simp: useCrudSchemas_def split: sum.splits)
  from filterSearchSchema_preorder [OF acc] r show ?thesis by simp
qed

lemma useCrudSchemas_others:
  assumes "useCrudSchemas t dict T = Inr r"
  shows "tableColumns (allSchemas r) = filterTableSchema T"
    and "formSchema (allSchemas r) = filterFormSchema T"
    and "detailSchema (allSchemas r) = filterDescriptionsSchema T"
  using assms by (auto simp: useCrudSchemas_def split: sum.splits)

lemma filter_show_declared:
  "list_all show_declared ns \<Longrightarrow> filter search_shown ns = filter search_show_true ns"
  by (induction ns)
     (auto simp: show_declared_def search_shown_def search_show_true_def split: jsval.splits)

text \<open>
  The engine returns whenever no shown search node names a dictionary: nothing else
  in the four projections can raise.
\<close>

lemma search_callback_without_dict:
  "\<not> uses_dict n \<Longrightarrow> \<exists>acc'. search_callback t n acc = Inr acc'"
  by (simp add: uses_dict_def search_shown_def search_callback_def Let_def del: js_get.simps)

lemma fold_search_visit_without_dict:
  "list_all (\<lambda>n. \<not> uses_dict n) ns \<Longrightarrow> \<exists>acc'. fold (search_visit t) ns (Inr acc) = Inr acc'"
proof (induction ns arbitrary: acc)
  case Nil
  then show ?case by simp
next
  case (Cons n ns)
  then obtain acc1 where "search_callback t n acc = Inr acc1"
    using search_callback_without_dict [of n t acc] by auto
  then have "search_visit t n (Inr acc) = Inr acc1" by (simp add: search_visit_def)
  with Cons show ?case by simp
qed

lemma useCrudSchemas_returns:
  assumes "list_all (\<lambda>n. \<not> uses_dict n) (preorder T)"
  shows "\<exists>r. useCrudSchemas t dict T = Inr r"
proof -
  from fold_search_visit_without_dict [OF assms] obtain acc where
    "filterSearchSchema t dict T = Inr acc"
    by (auto simp: filterSearchSchema_def eachTree_fold)
  then show ?thesis by (simp add: useCrudSchemas_def)
qed

lemma list_all2_map_same: "(\<And>x. P x (f x)) \<Longrightarrow> list_all2 P xs (map f xs)"
  by (induction xs) simp_all

lemma searchSchemaItem_identity:
  "js_get (JObj (delete_internal (searchSchemaItem n))) ''field'' = node_get n ''field''"
  "js_get (JObj (delete_internal (searchSchemaItem n))) ''label'' = node_get n ''label''"
  by (simp_all add: delete_internal_def searchSchemaItem_def Let_def update_conv')

lemma searchSchemaItem_block_key:
  assumes "node_get n ''search'' = JObj sb" and "k \<noteq> ''field''" and "k \<noteq> ''label''"
  shows "js_get (JObj (searchSchemaItem n)) k =
     (case map_of sb k of
        Some v \<Rightarrow> v
      | None \<Rightarrow> js_get (JObj [(''component'', js_or (js_get (JObj sb) ''component'') (JStr ''input'')),
                             (''componentProps'', JObj [])]) k)"
  using assms
  by (simp add: searchSchemaItem_def Let_def update_conv' map_of_spread map_add_def
      split: option.splits)

lemma search_built_from_identity:
  assumes "search_built_from n r"
  shows "same_identity n r"
proof -
  have "js_get (JObj r) ''field'' = js_get (JObj (AList.delete ''componentProps'' r)) ''field''"
    by (simp only: js_get_delete [of "''field''" "''componentProps''"] list.inject char.inject simp_thms)
  also have "\<dots> = node_get n ''field''"
    using assms by (simp add: search_built_from_def searchSchemaItem_identity [symmetric])
  finally have f: "js_get (JObj r) ''field'' = node_get n ''field''" .
  have "js_get (JObj r) ''label'' = js_get (JObj (AList.delete ''componentProps'' r)) ''label''"
    by simp
  also have "\<dots> = node_get n ''label''"
    using assms by (simp add: search_built_from_def searchSchemaItem_identity [symmetric])
  finally have l: "js_get (JObj r) ''label'' = node_get n ''label''" .
  from f l show ?thesis by (simp add: same_identity_def)
qed

lemma formSchemaItem_identity: "same_identity n (formSchemaItem n)"
  by (simp add: same_identity_def formSchemaItem_def Let_def update_conv')

lemma descriptionsSchemaItem_identity: "same_identity n (descriptionsSchemaItem n)"
  by (simp add: same_identity_def descriptionsSchemaItem_def update_conv')

section \<open>Facts about the table projection\<close>

lemma conversion_identity:
  assumes "conversion n = Some r" and "has_key n k"
  shows "js_get (JObj r) k = node_get n k"
proof -
  from assms(2) obtain y where y: "map_of (props n) k = Some y"
    by (auto simp: has_key_def)
  from assms(1) have r: "r = spread (JObj (props n)) (spread (node_get n ''table'') [])"
    by (simp add: conversion_def split: if_splits)
  have "js_get (JObj r) k = y"
    unfolding r by (simp only: js_get_spread_object y option.case)
  with y show ?thesis by (simp add: node_get_def)
qed

lemma column_of_identity: "column_of n c \<Longrightarrow> table_identity n c"
  unfolding column_of_def table_identity_def using conversion_identity by blast


lemma has_field_converted:
  "has_field (TableColumn (case conversion n of None \<Rightarrow> [] | Some r \<Rightarrow> r) kids) = table_kept n"
  by (simp add: has_field_def table_kept_def split: option.splits)

lemma column_of_converted:
  "table_kept n \<Longrightarrow>
   column_of n (TableColumn (case conversion n of None \<Rightarrow> [] | Some r \<Rightarrow> r) kids)"
  by (simp add: column_of_def table_kept_def split: option.splits)

lemma preorder_columns_append:
  "preorder_columns (xs @ ys) = preorder_columns xs @ preorder_columns ys"
  by (induction xs rule: preorder_columns.induct) simp_all

lemma table_columns_sources:
  "list_all2 column_of (table_sources T)
     (preorder_columns (filter_tree (treeMap T conversion) has_field))"
proof (induction T rule: table_sources.induct)
  case 1
  then show ?case by simp
next
  case (2 p rest)
  then show ?case
    by (simp add: has_field_converted column_of_converted preorder_columns_append
        list_all2_appendI)
next
  case (3 p cs rest)
  let ?n = "CrudSchema p (Some cs)"
  let ?kept = "filter_tree (treeMap cs conversion) has_field"
  let ?c = "TableColumn (case conversion ?n of None \<Rightarrow> [] | Some r \<Rightarrow> r)
              (if ?kept = [] then None else Some ?kept)"
  have unfold: "filter_tree (treeMap (?n # rest) conversion) has_field =
      (if table_kept ?n then [?c] else []) @ filter_tree (treeMap rest conversion) has_field"
    by (simp add: Let_def has_field_converted)
  show ?case
  proof (cases "table_kept ?n")
    case False
    with 3 unfold show ?thesis by simp
  next
    case True
    from True have c: "column_of ?n ?c" by (rule column_of_converted)
    from 3(1) [OF True] have kids: "list_all2 column_of (table_sources cs) (preorder_columns ?kept)" .
    have "preorder_columns [?c] = ?c # preorder_columns ?kept" by simp
    with c kids have "list_all2 column_of (?n # table_sources cs) (preorder_columns [?c])"
      by simp
    from this 3(2) have "list_all2 column_of ((?n # table_sources cs) @ table_sources rest)
        (preorder_columns [?c] @ preorder_columns (filter_tree (treeMap rest conversion) has_field))"
      by (rule list_all2_appendI)
    moreover have "table_sources (?n # rest) = (?n # table_sources cs) @ table_sources rest"
      using True by simp
    moreover have "preorder_columns (filter_tree (treeMap (?n # rest) conversion) has_field) =
        preorder_columns [?c] @ preorder_columns (filter_tree (treeMap rest conversion) has_field)"
      using True by (simp only: unfold if_True preorder_columns_append)
    ultimately show ?thesis by (simp only:)
  qed
qed



lemma filterTableSchema_sources:
  "list_all2 column_of (table_sources T) (preorder_columns (filterTableSchema T))"
  by (simp add: filterTableSchema_def table_columns_sources)


section \<open>Facts about the deferred task\<close>




section \<open>The search projection\<close>

text \<open>
  C1. When \<^verbatim>\<open>useCrudSchemas\<close> returns, and every \<^verbatim>\<open>search.show\<close> of the tree is a
  boolean or absent as declared, the records of \<^verbatim>\<open>searchSchema\<close> are, one for one and
  in order, built from the nodes whose \<^verbatim>\<open>search.show\<close> is \<^verbatim>\<open>true\<close>: a node is in the
  list if and only if its \<^verbatim>\<open>search.show\<close> is present and true, and a node whose
  \<^verbatim>\<open>search.show\<close> is absent or false is not.
\<close>

theorem searchSchema_iff_show_true:
  assumes "useCrudSchemas t dict T = Inr r"
    and "list_all show_declared (preorder T)"
  shows "list_all2 search_built_from (filter search_show_true (preorder T))
           (searchSchema (allSchemas r))"
  using useCrudSchemas_search [OF assms(1)] filter_show_declared [OF assms(2)] by simp

theorem searchSchema_iff_show_true_witness:
  "useCrudSchemas upper_t [] ex_tree = Inr ex_result
   \<and> list_all show_declared (preorder ex_tree)
   \<and> list_all2 search_built_from (filter search_show_true (preorder ex_tree))
        (searchSchema (allSchemas ex_result))
   \<and> map (\<lambda>n. node_get n ''field'') (filter search_show_true (preorder ex_tree))
        = [JStr ''a'', JStr ''c'']"
proof -
  have h1: "useCrudSchemas upper_t [] ex_tree = Inr ex_result" by code_simp
  have h2: "list_all show_declared (preorder ex_tree)" by code_simp
  have h3: "map (\<lambda>n. node_get n ''field'') (filter search_show_true (preorder ex_tree))
        = [JStr ''a'', JStr ''c'']" by code_simp
  from h1 h2 searchSchema_iff_show_true [OF h1 h2] h3 show ?thesis by blast
qed

text \<open>
  C4, as the claim states it, fails: for the node \<open>ex_dict_node\<close>, whose
  \<^verbatim>\<open>componentProps.optionsAlias.labelField\<close> is \<^verbatim>\<open>alt\<close>, the options assigned from the
  dictionary have their key \<^verbatim>\<open>label\<close> translated (first equation), which is not what
  \<^verbatim>\<open>filterOptions\<close> gives when it is handed that \<^verbatim>\<open>labelField\<close> (second equation).
  Line 104 calls \<^verbatim>\<open>filterOptions(dictArr)\<close> with one argument.
\<close>

theorem dict_ignores_labelField_counterexample:
  "filterSearchSchema upper_t ex_dict [ex_dict_node]
   = Inr \<lparr>acc_searchSchema =
            [[(''component'', JStr ''input''),
              (''componentProps'',
               JObj [(''optionsAlias'', JObj [(''labelField'', JStr ''alt'')]),
                     (''options'', JArr [JObj [(''alt'', JStr ''x''), (''label'', JStr ''Y'')]])]),
              (''field'', JStr ''a''), (''label'', JStr ''A'')]],
          acc_searchRequestTask = [],
          acc_getDictObj = [(''d'', JArr [JObj [(''alt'', JStr ''x''), (''label'', JStr ''Y'')]])]\<rparr>
   \<and> filterOptions upper_t (JArr [JObj [(''alt'', JStr ''x''), (''label'', JStr ''y'')]])
         (JStr ''alt'')
     = Inr [JObj [(''alt'', JStr ''x''), (''label'', JStr ''y''), (''labelField'', JUndefined)]]"
  by code_simp

text \<open>
  C4, amended. For every shown search node whose \<^verbatim>\<open>dictName\<close> is a non-empty string
  naming a dictionary entry that is a list of records, and whose \<^verbatim>\<open>componentProps\<close>
  is an object or absent: the visit appends one record, and that record already has
  \<^verbatim>\<open>componentProps.options\<close> set to the dictionary's list translated under the
  default key \<^verbatim>\<open>label\<close>, whatever \<^verbatim>\<open>componentProps.optionsAlias.labelField\<close> is; the
  other keys of \<^verbatim>\<open>componentProps\<close> stay, and the dictionary holds the translated
  records afterwards.
\<close>

theorem dict_options_use_label_key:
  assumes shown: "truthy (js_get (node_get n ''search'') ''show'')"
    and block: "node_get n ''search'' = JObj sb"
    and name: "map_of sb ''dictName'' = Some (JStr name)"
    and nonempty: "name \<noteq> []"
    and entry: "js_get (JObj (acc_getDictObj acc)) name = JArr (map JObj os)"
    and cp: "component_props_of sb = JObj cp"
  shows "\<exists>r. search_callback t n acc =
             Inr (acc\<lparr>acc_searchSchema := acc_searchSchema acc @ [r],
                      acc_getDictObj :=
                        AList.update name (JArr (translate_labels t os)) (acc_getDictObj acc)\<rparr>)
           \<and> js_get (JObj r) ''componentProps'' =
               JObj (AList.update ''options'' (JArr (translate_labels t os)) cp)"
proof -
  let ?item = "searchSchemaItem n"
  have dn: "js_get (JObj ?item) ''dictName'' = JStr name"
    using searchSchemaItem_block_key [OF block, of "''dictName''"] name by simp
  have icp: "js_get (JObj ?item) ''componentProps'' = JObj cp"
    using searchSchemaItem_block_key [OF block, of "''componentProps''"] cp
    by (simp add: component_props_of_def split: option.splits)
  have fo: "filterOptions t (dict_lookup (acc_getDictObj acc) (JStr name)) JUndefined =
      Inr (translate_labels t os)"
    using entry by (simp add: dict_lookup_def filterOptions_objects translate_labels_def)
  let ?item' = "AList.update ''componentProps''
      (JObj (AList.update ''options'' (JArr (translate_labels t os)) cp)) ?item"
  have so: "set_options ?item (JArr (translate_labels t os)) = Inr ?item'"
    using icp by (simp add: set_options_def)
  have cb: "search_callback t n acc =
      Inr (acc\<lparr>acc_searchSchema := acc_searchSchema acc @ [delete_internal ?item'],
               acc_getDictObj :=
                 AList.update name (JArr (translate_labels t os)) (acc_getDictObj acc)\<rparr>)"
    using shown nonempty
    by (simp add: search_callback_def Let_def dn fo so dict_store_def del: js_get.simps)
  have "js_get (JObj (delete_internal ?item')) ''componentProps'' =
      JObj (AList.update ''options'' (JArr (translate_labels t os)) cp)"
    by (simp add: delete_internal_def update_conv')
  with cb show ?thesis by blast
qed

theorem dict_options_use_label_key_witness:
  "truthy (js_get (node_get ex_dict_node ''search'') ''show'')
   \<and> (\<exists>r. search_callback upper_t ex_dict_node
              \<lparr>acc_searchSchema = [], acc_searchRequestTask = [], acc_getDictObj = ex_dict\<rparr>
            = Inr \<lparr>acc_searchSchema = [r], acc_searchRequestTask = [],
                   acc_getDictObj =
                     [(''d'', JArr [JObj [(''alt'', JStr ''x''), (''label'', JStr ''Y'')]])]\<rparr>
          \<and> js_get (JObj r) ''componentProps'' =
              JObj [(''optionsAlias'', JObj [(''labelField'', JStr ''alt'')]),
                    (''options'', JArr [JObj [(''alt'', JStr ''x''), (''label'', JStr ''Y'')]])])"
proof -
  let ?sb = "[(''show'', JBool True), (''dictName'', JStr ''d''),
             (''componentProps'', JObj [(''optionsAlias'', JObj [(''labelField'', JStr ''alt'')])])]"
  let ?acc = "\<lparr>acc_searchSchema = [], acc_searchRequestTask = [], acc_getDictObj = ex_dict\<rparr>"
  have h1: "truthy (js_get (node_get ex_dict_node ''search'') ''show'')"
    by (simp add: node_get_def ex_dict_node_def)
  have h2: "node_get ex_dict_node ''search'' = JObj ?sb"
    by (simp add: node_get_def ex_dict_node_def)
  have h3: "map_of ?sb ''dictName'' = Some (JStr ''d'')" by simp
  have h4: "''d'' \<noteq> []" by simp
  have h5: "js_get (JObj (acc_getDictObj ?acc)) ''d'' =
      JArr (map JObj [[(''alt'', JStr ''x''), (''label'', JStr ''y'')]])"
    by (simp add: ex_dict_def)
  have h6: "component_props_of ?sb = JObj [(''optionsAlias'', JObj [(''labelField'', JStr ''alt'')])]"
    by (simp add: component_props_of_def)
  have tl: "translate_labels upper_t [[(''alt'', JStr ''x''), (''label'', JStr ''y'')]] =
      [JObj [(''alt'', JStr ''x''), (''label'', JStr ''Y'')]]"
    by (simp add: translate_labels_def toUpperCase_def)
  have u1: "AList.update ''d'' v (acc_getDictObj ?acc) = [(''d'', v)]" for v
    by (simp add: ex_dict_def)
  have u2: "AList.update ''options'' v [(''optionsAlias'', JObj [(''labelField'', JStr ''alt'')])] =
      [(''optionsAlias'', JObj [(''labelField'', JStr ''alt'')]), (''options'', v)]" for v
    by simp
  have u3: "?acc\<lparr>acc_searchSchema := acc_searchSchema ?acc @ [r], acc_getDictObj := d\<rparr> =
      \<lparr>acc_searchSchema = [r], acc_searchRequestTask = [], acc_getDictObj = d\<rparr>" for r d
    by simp
  from dict_options_use_label_key [OF h1 h2 h3 h4 h5 h6, of upper_t]
  have "\<exists>r. search_callback upper_t ex_dict_node ?acc
            = Inr \<lparr>acc_searchSchema = [r], acc_searchRequestTask = [],
                   acc_getDictObj =
                     [(''d'', JArr [JObj [(''alt'', JStr ''x''), (''label'', JStr ''Y'')]])]\<rparr>
          \<and> js_get (JObj r) ''componentProps'' =
              JObj [(''optionsAlias'', JObj [(''labelField'', JStr ''alt'')]),
                    (''options'', JArr [JObj [(''alt'', JStr ''x''), (''label'', JStr ''Y'')]])]"
    unfolding tl u1 u2 u3 .
  with h1 show ?thesis by (rule conjI)
qed

section \<open>Node identity across the four projections\<close>

text \<open>
  C7, as the claim states it, fails in the table projection: the node
  \<^verbatim>\<open>{field: "a", table: {label: "T"}}\<close> has no \<^verbatim>\<open>label\<close>, and its column has the label
  \<^verbatim>\<open>T\<close> of the table block. \<^verbatim>\<open>{...schema.table, ...schema}\<close> lets a key of the node
  override the block's only when the node has that key.
\<close>

theorem table_label_from_block_counterexample:
  "filterTableSchema
     [CrudSchema [(''field'', JStr ''a''), (''table'', JObj [(''label'', JStr ''T'')])] None]
   = [TableColumn [(''label'', JStr ''T''), (''field'', JStr ''a''),
                   (''table'', JObj [(''label'', JStr ''T'')])] None]
   \<and> node_get
       (CrudSchema [(''field'', JStr ''a''), (''table'', JObj [(''label'', JStr ''T'')])] None)
       ''label'' = JUndefined"
  by code_simp

text \<open>
  C7, amended. In the search, form and detail projections every output record's
  \<^verbatim>\<open>field\<close> and \<^verbatim>\<open>label\<close> are those of its source node (\<^verbatim>\<open>undefined\<close> when the node
  has none), whatever same-named keys the view block has. In the table projection
  every output column's \<^verbatim>\<open>field\<close> and \<^verbatim>\<open>label\<close> are those of its source node whenever
  the node itself has the key.
\<close>

theorem projections_keep_identity:
  assumes "useCrudSchemas t dict T = Inr r"
  shows "list_all2 same_identity (filter search_shown (preorder T))
           (searchSchema (allSchemas r))
       \<and> list_all2 same_identity (filter form_shown (preorder T))
           (formSchema (allSchemas r))
       \<and> list_all2 same_identity (filter detail_shown (preorder T))
           (detailSchema (allSchemas r))
       \<and> list_all2 table_identity (table_sources T)
           (preorder_columns (tableColumns (allSchemas r)))"
proof -
  have s: "list_all2 same_identity (filter search_shown (preorder T))
             (searchSchema (allSchemas r))"
    using useCrudSchemas_search [OF assms]
    by (rule list_all2_mono) (rule search_built_from_identity)
  have f: "list_all2 same_identity (filter form_shown (preorder T))
             (formSchema (allSchemas r))"
    by (simp only: useCrudSchemas_others(2) [OF assms] filterFormSchema_preorder
        list_all2_map_same [of same_identity formSchemaItem, OF formSchemaItem_identity])
  have d: "list_all2 same_identity (filter detail_shown (preorder T))
             (detailSchema (allSchemas r))"
    by (simp only: useCrudSchemas_others(3) [OF assms] filterDescriptionsSchema_preorder
        list_all2_map_same [of same_identity descriptionsSchemaItem,
          OF descriptionsSchemaItem_identity])
  have c: "list_all2 table_identity (table_sources T)
             (preorder_columns (tableColumns (allSchemas r)))"
    unfolding useCrudSchemas_others(1) [OF assms]
    using filterTableSchema_sources by (rule list_all2_mono) (rule column_of_identity)
  from s f d c show ?thesis by blast
qed

theorem projections_keep_identity_witness:
  "useCrudSchemas upper_t [] ex_tree = Inr ex_result
   \<and> list_all2 same_identity (filter search_shown (preorder ex_tree))
        (searchSchema (allSchemas ex_result))
   \<and> list_all2 same_identity (filter form_shown (preorder ex_tree))
        (formSchema (allSchemas ex_result))
   \<and> list_all2 same_identity (filter detail_shown (preorder ex_tree))
        (detailSchema (allSchemas ex_result))
   \<and> list_all2 table_identity (table_sources ex_tree)
        (preorder_columns (tableColumns (allSchemas ex_result)))"
proof -
  have h: "useCrudSchemas upper_t [] ex_tree = Inr ex_result" by code_simp
  from h projections_keep_identity [OF h] show ?thesis by (rule conjI)
qed

section \<open>Order of the flat projections\<close>

text \<open>
  C8. When \<^verbatim>\<open>useCrudSchemas\<close> returns, \<^verbatim>\<open>searchSchema\<close>, \<^verbatim>\<open>formSchema\<close> and
  \<^verbatim>\<open>detailSchema\<close> are lists with one record for each node visible in that view, in
  the pre-order of the tree: the form and detail lists are the visible nodes' records
  exactly, and the search list is built, record by record, from the visible nodes.
\<close>

theorem projections_flat_preorder:
  assumes "useCrudSchemas t dict T = Inr r"
  shows "list_all2 search_built_from (filter search_shown (preorder T))
           (searchSchema (allSchemas r))
       \<and> formSchema (allSchemas r) = map formSchemaItem (filter form_shown (preorder T))
       \<and> detailSchema (allSchemas r)
           = map descriptionsSchemaItem (filter detail_shown (preorder T))"
  using useCrudSchemas_search [OF assms] useCrudSchemas_others(2,3) [OF assms]
  by (simp add: filterFormSchema_preorder filterDescriptionsSchema_preorder)

theorem projections_flat_preorder_witness:
  "useCrudSchemas upper_t [] ex_tree = Inr ex_result
   \<and> list_all2 search_built_from (filter search_shown (preorder ex_tree))
        (searchSchema (allSchemas ex_result))
   \<and> formSchema (allSchemas ex_result)
        = map formSchemaItem (filter form_shown (preorder ex_tree))
   \<and> detailSchema (allSchemas ex_result)
        = map descriptionsSchemaItem (filter detail_shown (preorder ex_tree))"
proof -
  have h: "useCrudSchemas upper_t [] ex_tree = Inr ex_result" by code_simp
  from h projections_flat_preorder [OF h] show ?thesis by (rule conjI)
qed

section \<open>The table projection\<close>




section \<open>The option-list translator and the identifier generator\<close>

text \<open>
  C9. With no \<^verbatim>\<open>labelField\<close> and the upper-casing translator, \<^verbatim>\<open>[{label: "x"}]\<close>
  becomes \<^verbatim>\<open>[{label: "X"}]\<close>. With \<^verbatim>\<open>labelField = "alt"\<close>, for every translator and
  every list of records, each record gets the translation of its key literally named
  \<^verbatim>\<open>labelField\<close> written under that same literal key; the key \<^verbatim>\<open>alt\<close> is neither read
  nor written (third and fourth equations: a record that has the literal key, and one
  that has not).
\<close>

theorem filterOptions_literal_key:
  "filterOptions upper_t (JArr [JObj [(''label'', JStr ''x'')]]) JUndefined
     = Inr [JObj [(''label'', JStr ''X'')]]
   \<and> filterOptions t (JArr (map JObj os)) (JStr ''alt'')
     = Inr (map (\<lambda>kvs. JObj (AList.update ''labelField''
                               (t (js_get (JObj kvs) ''labelField'')) kvs)) os)
   \<and> filterOptions upper_t
        (JArr [JObj [(''alt'', JStr ''x''), (''labelField'', JStr ''y'')]]) (JStr ''alt'')
     = Inr [JObj [(''alt'', JStr ''x''), (''labelField'', JStr ''Y'')]]
   \<and> filterOptions upper_t (JArr [JObj [(''label'', JStr ''x'')]]) (JStr ''alt'')
     = Inr [JObj [(''label'', JStr ''x''), (''labelField'', JUndefined)]]"
proof -
  have a: "filterOptions upper_t (JArr [JObj [(''label'', JStr ''x'')]]) JUndefined
     = Inr [JObj [(''label'', JStr ''X'')]]"
    by (simp add: filterOptions_def translate_record_def toUpperCase_def)
  have b: "filterOptions t (JArr (map JObj os)) (JStr ''alt'')
     = Inr (map (\<lambda>kvs. JObj (AList.update ''labelField''
                               (t (js_get (JObj kvs) ''labelField'')) kvs)) os)"
    by (simp add: filterOptions_objects)
  have c: "filterOptions upper_t
        (JArr [JObj [(''alt'', JStr ''x''), (''labelField'', JStr ''y'')]]) (JStr ''alt'')
     = Inr [JObj [(''alt'', JStr ''x''), (''labelField'', JStr ''Y'')]]"
    by (simp add: filterOptions_def translate_record_def toUpperCase_def)
  have d: "filterOptions upper_t (JArr [JObj [(''label'', JStr ''x'')]]) (JStr ''alt'')
     = Inr [JObj [(''label'', JStr ''x''), (''labelField'', JUndefined)]]"
    by (simp add: filterOptions_def translate_record_def toUpperCase_def)
  from a b c d show ?thesis by blast
qed

text \<open>
  C10 (the code departs from the claim). \<^verbatim>\<open>v.toString()\<close> has no radix, so a value
  from 10 to 15 is printed as two decimal digits, not as one hexadecimal digit. When
  every draw of \<^verbatim>\<open>Math.random\<close> is 0.625, each \<^verbatim>\<open>x\<close> and the \<^verbatim>\<open>y\<close> become \<^verbatim>\<open>10\<close>: the
  result has 53 characters and does not match the template.
\<close>

theorem toAnyString_prints_decimal:
  "toAnyString (\<lambda>i. 5 / 8) = ''1010101010-1010101010-410101010-1010101010-1010101010''
   \<and> \<not> matches_template ''xxxxx-xxxxx-4xxxx-yxxxx-xxxxx'' (toAnyString (\<lambda>i. 5 / 8))"
  by (simp add: toAnyString_def replacer_def to_int32_def toString_def)

section \<open>Enrichment from the dictionary and from the deferred task\<close>

text \<open>
  C3 (the code departs from the claim). A search node whose \<^verbatim>\<open>dictName\<close> names no
  entry of the dictionary: \<^verbatim>\<open>dictArr\<close> is \<^verbatim>\<open>undefined\<close>, \<^verbatim>\<open>filterOptions\<close> calls
  \<^verbatim>\<open>undefined.map\<close>, and the TypeError leaves \<^verbatim>\<open>useCrudSchemas\<close>; no schema is
  returned.
\<close>

theorem useCrudSchemas_absent_dict_entry_raises:
  "useCrudSchemas t []
     [CrudSchema [(''field'', JStr ''a''), (''label'', JStr ''A''),
                  (''search'', JObj [(''show'', JBool True), (''dictName'', JStr ''missing'')])]
        None]
   = Inl TypeError"
  by (simp add: useCrudSchemas_def filterSearchSchema_def search_visit_def search_callback_def
      searchSchemaItem_def node_get_def spread_def js_or_def dict_lookup_def filterOptions_def)





end
